theory Spec2Isabelle
  imports Main "HOL-Library.AList"
begin

section \<open>JavaScript values\<close>

text \<open>
  The values the component compares and tests for truthiness. Objects and functions
  are known by their identity only (\<open>JObject r\<close>), which is what \<open>===\<close> and
  \<open>Array.prototype.includes\<close> compare; numbers are the integer-valued ones, so that
  both comparisons are plain equality on this type (there is no NaN and no negative
  zero here).
\<close>

datatype jsval =
    JUndefined
  | JNull
  | JBool bool
  | JNum int
  | JStr string
  | JObject nat

fun truthy :: "jsval \<Rightarrow> bool" where
  "truthy JUndefined = False"
| "truthy JNull = False"
| "truthy (JBool b) = b"
| "truthy (JNum n) = (n \<noteq> 0)"
| "truthy (JStr s) = (s \<noteq> [])"
| "truthy (JObject r) = True"

text \<open>
  A prop that holds an object, an array or a function when it is given, and may be
  \<open>undefined\<close> or \<open>null\<close> instead. A given object is truthy, so \<open>x || d\<close> is
  \<open>or_default x d\<close>, and \<open>x == null\<close> is \<open>nullish x\<close>.
\<close>

datatype 'a nullable = Undefined | Null | Defined 'a

fun nullish :: "'a nullable \<Rightarrow> bool" where
  "nullish Undefined = True"
| "nullish Null = True"
| "nullish (Defined x) = False"

fun or_default :: "'a nullable \<Rightarrow> 'a \<Rightarrow> 'a" where
  "or_default Undefined d = d"
| "or_default Null d = d"
| "or_default (Defined x) d = x"

datatype js_error = TypeError string

text \<open>\<open>intl.formatMessage({ id }, values)\<close>: the message lookup is the caller's.\<close>

type_synonym intl = "string \<Rightarrow> (string \<times> jsval) list \<Rightarrow> string"

section \<open>Props\<close>

text \<open>
  An entry of \<open>listingExtendedDataConfig\<close>, with the four fields the form reads.
  \<open>includeForListingTypes\<close> is an array when it is given, as the configuration has it;
  the three other fields may hold any value.
\<close>

record ext_data_config =
  key :: jsval
  includeForListingTypes :: "jsval list nullable"
  schemaType :: jsval
  scope :: jsval

text \<open>\<open>{}\<close>: every field read from it is \<open>undefined\<close>.\<close>

definition empty_config :: ext_data_config where
  "empty_config =
     \<lparr>key = JUndefined, includeForListingTypes = Undefined,
      schemaType = JUndefined, scope = JUndefined\<rparr>"

record fetch_errors =
  updateListingError :: jsval
  createListingDraftError :: jsval
  showListingsError :: jsval

definition empty_errors :: fetch_errors where
  "empty_errors =
     \<lparr>updateListingError = JUndefined, createListingDraftError = JUndefined,
      showListingsError = JUndefined\<rparr>"

section \<open>Rendered elements\<close>

text \<open>
  The validators of \<open>util/validators\<close> are built by the form and run by the form-state
  library: the element tree holds the calls that build them. Among the values of props,
  \<open>Css n\<close> is \<open>css.n\<close> of the CSS module, \<open>ClassNames\<close> a call of
  \<open>classNames\<close>, \<open>HandleOnChange\<close> the change handler of the listing-type select,
  \<open>ArrayMutators\<close> the object \<open>{ ...arrayMutators }\<close> and \<open>Render\<close> the render
  function of the form.
\<close>

datatype validator =
    required string
  | maxLength string nat
  | composeValidators "validator list"

datatype prop_value =
    Val jsval
  | Css string
  | ClassNames "prop_value list"
  | Validate validator
  | HandleOnChange
  | FieldConfig "ext_data_config nullable"
  | ArrayMutators
  | Render

text \<open>
  \<open>Element tag props children\<close> is a JSX element, \<open>Fragment\<close> is \<open><>...</>\<close>,
  \<open>Expr v\<close> a \<open>{value}\<close> child, \<open>RenderNull\<close> the \<open>null\<close> a component returns to
  render nothing, and \<open>InputOfFieldRenderProps\<close> the function child
  \<open>fieldRenderProps => <input {...fieldRenderProps?.input} />\<close> of a hidden field.
  An array among the children stands for its elements, as React renders it.
\<close>

datatype element =
    Element string "(string \<times> prop_value) list" "element list"
  | Fragment "element list"
  | Expr jsval
  | InputOfFieldRenderProps
  | RenderNull

definition TITLE_MAX_LENGTH :: nat where
  "TITLE_MAX_LENGTH = 60"

section \<open>ErrorMessage\<close>

definition errorMessage :: "fetch_errors nullable \<Rightarrow> element nullable" where
  "errorMessage fetchErrors =
     (let errs = or_default fetchErrors empty_errors in
      if truthy (updateListingError errs) then
        Defined (Element ''FormattedMessage''
          [(''id'', Val (JStr ''EditListingDetailsForm.updateFailed''))] [])
      else if truthy (createListingDraftError errs) then
        Defined (Element ''FormattedMessage''
          [(''id'', Val (JStr ''EditListingDetailsForm.createListingDraftError''))] [])
      else if truthy (showListingsError errs) then
        Defined (Element ''FormattedMessage''
          [(''id'', Val (JStr ''EditListingDetailsForm.showListingFailed''))] [])
      else Null)"

definition ErrorMessage :: "fetch_errors nullable \<Rightarrow> element" where
  "ErrorMessage fetchErrors =
     (case errorMessage fetchErrors of
        Defined msg \<Rightarrow> Element ''p'' [(''className'', Css ''error'')] [msg]
      | _ \<Rightarrow> RenderNull)"

section \<open>FieldHidden\<close>

definition FieldHidden :: "string \<Rightarrow> element" where
  "FieldHidden name =
     Element ''Field''
       [(''id'', Val (JStr name)), (''name'', Val (JStr name)),
        (''type'', Val (JStr ''hidden'')), (''className'', Css ''unitTypeHidden'')]
       [InputOfFieldRenderProps]"

section \<open>AddCustomExtendedDataFields\<close>

definition CustomExtendedDataField ::
  "intl \<Rightarrow> ext_data_config nullable \<Rightarrow> element" where
  "CustomExtendedDataField intl extendedDataConfig =
     (let cfg = or_default extendedDataConfig empty_config in
      Element ''CustomExtendedDataField''
        [(''key'', Val (key cfg)), (''name'', Val (key cfg)),
         (''fieldConfig'', FieldConfig extendedDataConfig),
         (''defaultRequiredMessage'',
            Val (JStr (intl ''EditListingDetailsForm.defaultRequiredMessage'' [])))]
        [])"

text \<open>
  The three tests of the reducer. \<open>EXTENDED_DATA_SCHEMA_TYPES\<close> is imported from
  \<open>util/types\<close>; it is a parameter here.
\<close>

definition isKnownSchemaType :: "jsval list \<Rightarrow> ext_data_config \<Rightarrow> bool" where
  "isKnownSchemaType EXTENDED_DATA_SCHEMA_TYPES cfg =
     (schemaType cfg \<in> set EXTENDED_DATA_SCHEMA_TYPES)"

definition isTargetProcessAlias :: "jsval \<Rightarrow> ext_data_config \<Rightarrow> bool" where
  "isTargetProcessAlias listingType cfg =
     (case includeForListingTypes cfg of
        Defined types \<Rightarrow> listingType \<in> set types
      | _ \<Rightarrow> True)"

definition isProviderScope :: "ext_data_config \<Rightarrow> bool" where
  "isProviderScope cfg = (scope cfg \<in> set [JStr ''public'', JStr ''private''])"

definition pickField ::
  "jsval list \<Rightarrow> intl \<Rightarrow> jsval \<Rightarrow> element list \<Rightarrow> ext_data_config nullable \<Rightarrow> element list"
where
  "pickField EXTENDED_DATA_SCHEMA_TYPES intl listingType pickedFields extendedDataConfig =
     (let cfg = or_default extendedDataConfig empty_config in
      if isKnownSchemaType EXTENDED_DATA_SCHEMA_TYPES cfg
         \<and> isTargetProcessAlias listingType cfg \<and> isProviderScope cfg
      then pickedFields @ [CustomExtendedDataField intl extendedDataConfig]
      else pickedFields)"

definition customFields ::
  "jsval list \<Rightarrow> intl \<Rightarrow> jsval \<Rightarrow> ext_data_config nullable list nullable \<Rightarrow> element list"
where
  "customFields EXTENDED_DATA_SCHEMA_TYPES intl listingType listingExtendedDataConfig =
     (let extendedDataConfigs = or_default listingExtendedDataConfig [] in
      foldl (pickField EXTENDED_DATA_SCHEMA_TYPES intl listingType) [] extendedDataConfigs)"

definition AddCustomExtendedDataFields ::
  "jsval list \<Rightarrow> intl \<Rightarrow> jsval \<Rightarrow> ext_data_config nullable list nullable \<Rightarrow> element"
where
  "AddCustomExtendedDataFields EXTENDED_DATA_SCHEMA_TYPES intl listingType
       listingExtendedDataConfig =
     Fragment (customFields EXTENDED_DATA_SCHEMA_TYPES intl listingType
       listingExtendedDataConfig)"

section \<open>The form API\<close>

text \<open>
  The form-state library's \<open>formApi\<close>, as far as this form uses it: the names of the
  registered fields and the form's values. \<open>formApi.getFieldState(name)\<close> is
  \<open>undefined\<close> for a name that no field has registered, and the state of a registered
  field carries the form's value for its name; \<open>formApi.change(name, value)\<close> stores
  the value under that name and touches nothing else.
\<close>

record formApi =
  registeredFields :: "string set"
  formValues :: "string \<Rightarrow> jsval"

definition getFieldState_value :: "formApi \<Rightarrow> string \<Rightarrow> jsval" where
  "getFieldState_value api name =
     (if name \<in> registeredFields api then formValues api name else JUndefined)"

definition change :: "string \<Rightarrow> jsval \<Rightarrow> formApi \<Rightarrow> formApi" where
  "change name v api = api\<lparr>formValues := (formValues api)(name := v)\<rparr>"

text \<open>
  What a call of the change handler can affect: the form, and the calls of
  \<open>onProcessChange\<close> made so far (the function called and its argument, oldest first).
\<close>

record world =
  formState :: formApi
  processChangeCalls :: "(nat \<times> jsval) list"

section \<open>FieldSelectListingType\<close>

record listing_type_config =
  listingType :: jsval
  transactionProcessAlias :: jsval
  unitType :: jsval
  label :: jsval

definition hasMultipleListingTypes :: "listing_type_config list nullable \<Rightarrow> bool" where
  "hasMultipleListingTypes listingTypes =
     (case listingTypes of Defined configs \<Rightarrow> length configs > 1 | _ \<Rightarrow> False)"

text \<open>
  \<open>handleOnChange\<close> is the closure defined inside \<open>FieldSelectListingType\<close>; the
  props it captures (\<open>listingTypes\<close>, \<open>onProcessChange\<close>) are parameters here, and
  the captured \<open>formApi\<close> is the form of the world. It reads the stored process alias,
  looks the selected configuration up, and fails where the source reads a property of
  \<open>undefined\<close> (or calls \<open>find\<close> on a missing list): nothing has been changed at
  that point. \<open>onProcessChange\<close> is a function when it is given, named by its identity.
\<close>

definition handleOnChange ::
  "listing_type_config list nullable \<Rightarrow> nat nullable \<Rightarrow> jsval \<Rightarrow> world \<Rightarrow> js_error + world"
where
  "handleOnChange listingTypes onProcessChange value w =
     (let storedAlias = getFieldState_value (formState w) ''transactionProcessAlias'' in
      case listingTypes of
        Defined configs \<Rightarrow>
          (case find (\<lambda>config. listingType config = value) configs of
             None \<Rightarrow>
               Inl (TypeError ''Cannot read properties of undefined (reading transactionProcessAlias)'')
           | Some selectedListingType \<Rightarrow>
               (let w1 = w\<lparr>formState := change ''transactionProcessAlias''
                            (transactionProcessAlias selectedListingType) (formState w)\<rparr>;
                    w2 = w1\<lparr>formState := change ''unitType''
                            (unitType selectedListingType) (formState w1)\<rparr>;
                    hasProcessChanged =
                      (storedAlias \<noteq> transactionProcessAlias selectedListingType)
                in case onProcessChange of
                     Defined f \<Rightarrow>
                       if hasProcessChanged
                       then Inr (w2\<lparr>processChangeCalls := processChangeCalls w2 @
                              [(f, transactionProcessAlias selectedListingType)]\<rparr>)
                       else Inr w2
                   | _ \<Rightarrow> Inr w2))
      | _ \<Rightarrow> Inl (TypeError ''Cannot read properties of undefined (reading find)''))"

text \<open>
  The element rendered for one configuration by \<open>listingTypes.map\<close>. The select is
  rendered only when \<open>listingTypes\<close> is an array of more than one entry, so the
  \<open>or_default\<close> around the mapped list never takes its default. The prop
  \<open>onProcessChange\<close> is used by the change handler alone, and \<open>HandleOnChange\<close> in
  the tree stands for that handler.
\<close>

definition listingTypeOption :: "listing_type_config \<Rightarrow> element" where
  "listingTypeOption config =
     (let type = listingType config in
      Element ''option'' [(''key'', Val type), (''value'', Val type)] [Expr (label config)])"

definition FieldSelectListingType ::
  "string \<Rightarrow> listing_type_config list nullable \<Rightarrow> bool \<Rightarrow> formApi \<Rightarrow> intl \<Rightarrow> element"
where
  "FieldSelectListingType name listingTypes hasExistingListingType api intl =
     (if hasMultipleListingTypes listingTypes \<and> \<not> hasExistingListingType then
        Fragment
          [Element ''FieldSelect''
             [(''id'', Val (JStr name)), (''name'', Val (JStr name)),
              (''className'', Css ''listingTypeSelect''),
              (''label'',
                 Val (JStr (intl ''EditListingDetailsForm.listingTypeLabel'' []))),
              (''validate'',
                 Validate (required (intl ''EditListingDetailsForm.listingTypeRequired'' []))),
              (''onChange'', HandleOnChange)]
             (Element ''option'' [(''disabled'', Val (JBool True)), (''value'', Val (JStr ''''))]
                [Expr (JStr (intl ''EditListingDetailsForm.listingTypePlaceholder'' []))]
              # map listingTypeOption (or_default listingTypes [])),
           FieldHidden ''transactionProcessAlias'',
           FieldHidden ''unitType'']
      else if hasMultipleListingTypes listingTypes \<and> hasExistingListingType then
        Element ''div'' [(''className'', Css ''listingTypeSelect'')]
          [Element ''Heading'' [(''as'', Val (JStr ''h5'')), (''rootClassName'', Css ''selectedLabel'')]
             [Expr (JStr (intl ''EditListingDetailsForm.listingTypeLabel'' []))],
           Element ''p'' [(''className'', Css ''selectedValue'')]
             [Expr (getFieldState_value api name)],
           FieldHidden name,
           FieldHidden ''transactionProcessAlias'',
           FieldHidden ''unitType'']
      else
        Fragment
          [FieldHidden name,
           FieldHidden ''transactionProcessAlias'',
           FieldHidden ''unitType''])"

section \<open>EditListingDetailsFormComponent\<close>

text \<open>
  The props the form-state library hands to the \<open>render\<close> function: the component's own
  props together with the library's (\<open>form\<close>, \<open>handleSubmit\<close>, \<open>invalid\<close>,
  \<open>pristine\<close>, \<open>values\<close>). The flags are booleans, as the component's prop types
  declare them; \<open>formRenderValues\<close> is the \<open>values\<close> object, read by field name.
\<close>

record formRenderProps =
  autoFocus :: jsval
  className :: jsval
  disabled :: bool
  ready :: bool
  form :: formApi
  handleSubmit :: jsval
  onProcessChange :: "nat nullable"
  intl :: intl
  invalid :: bool
  pristine :: bool
  selectableListingTypes :: "listing_type_config list nullable"
  hasExistingListingType :: bool
  saveActionMsg :: jsval
  updated :: bool
  updateInProgress :: bool
  fetchErrors :: "fetch_errors nullable"
  listingExtendedDataConfig :: "ext_data_config nullable list nullable"
  formRenderValues :: "string \<Rightarrow> jsval"

text \<open>
  The function given to the form-state library as \<open>render\<close>.
  \<open>EXTENDED_DATA_SCHEMA_TYPES\<close> is the imported constant.
\<close>

definition render :: "jsval list \<Rightarrow> formRenderProps \<Rightarrow> element" where
  "render EXTENDED_DATA_SCHEMA_TYPES props =
     (let listingTypeValue = formRenderValues props ''listingType'';
          titleRequiredMessage = intl props ''EditListingDetailsForm.titleRequired'' [];
          maxLengthMessage = intl props ''EditListingDetailsForm.maxLength''
            [(''maxLength'', JNum (int TITLE_MAX_LENGTH))];
          maxLength60Message = maxLength maxLengthMessage TITLE_MAX_LENGTH;
          classes = ClassNames [Css ''root'', Val (className props)];
          submitReady = ((updated props \<and> pristine props) \<or> ready props);
          submitInProgress = updateInProgress props;
          submitDisabled = (invalid props \<or> disabled props \<or> submitInProgress)
      in
      Element ''Form'' [(''className'', classes), (''onSubmit'', Val (handleSubmit props))]
        [ErrorMessage (fetchErrors props),
         Element ''FieldTextInput''
           [(''id'', Val (JStr ''title'')), (''name'', Val (JStr ''title'')),
            (''className'', Css ''title''), (''type'', Val (JStr ''text'')),
            (''label'', Val (JStr (intl props ''EditListingDetailsForm.title'' []))),
            (''placeholder'',
               Val (JStr (intl props ''EditListingDetailsForm.titlePlaceholder'' []))),
            (''maxLength'', Val (JNum (int TITLE_MAX_LENGTH))),
            (''validate'',
               Validate (composeValidators [required titleRequiredMessage, maxLength60Message])),
            (''autoFocus'', Val (autoFocus props))]
           [],
         Element ''FieldTextInput''
           [(''id'', Val (JStr ''description'')), (''name'', Val (JStr ''description'')),
            (''className'', Css ''description''), (''type'', Val (JStr ''textarea'')),
            (''label'', Val (JStr (intl props ''EditListingDetailsForm.description'' []))),
            (''placeholder'',
               Val (JStr (intl props ''EditListingDetailsForm.descriptionPlaceholder'' []))),
            (''validate'',
               Validate (required (intl props ''EditListingDetailsForm.descriptionRequired'' [])))]
           [],
         FieldSelectListingType ''listingType'' (selectableListingTypes props)
           (hasExistingListingType props) (form props) (intl props),
         AddCustomExtendedDataFields EXTENDED_DATA_SCHEMA_TYPES (intl props) listingTypeValue
           (listingExtendedDataConfig props),
         Element ''Button''
           [(''className'', Css ''submitButton''), (''type'', Val (JStr ''submit'')),
            (''inProgress'', Val (JBool submitInProgress)),
            (''disabled'', Val (JBool submitDisabled)),
            (''ready'', Val (JBool submitReady))]
           [Expr (saveActionMsg props)]])"

text \<open>
  The component itself: \<open><FinalForm {...props} mutators={...} render={...} />\<close>. The
  props are spread first, so the two named props replace props of the same name and
  every other prop reaches the library as it was given.
\<close>

definition EditListingDetailsFormComponent :: "(string \<times> prop_value) list \<Rightarrow> element" where
  "EditListingDetailsFormComponent props =
     Element ''FinalForm''
       (AList.update ''render'' Render (AList.update ''mutators'' ArrayMutators props)) []"

section \<open>Reading a rendered tree\<close>

text \<open>
  The nodes of a tree in document order, the elements with a given tag, a prop of an
  element, and the hidden fields: a \<open>Field\<close> of type \<open>hidden\<close> registers its name with
  the form and shows nothing.
\<close>

fun nodes :: "element \<Rightarrow> element list" where
  "nodes (Element tag props children) =
     Element tag props children # concat (map nodes children)"
| "nodes (Fragment children) = Fragment children # concat (map nodes children)"
| "nodes e = [e]"

fun tag_of :: "element \<Rightarrow> string option" where
  "tag_of (Element tag props children) = Some tag"
| "tag_of e = None"

fun props_of :: "element \<Rightarrow> (string \<times> prop_value) list" where
  "props_of (Element tag props children) = props"
| "props_of e = []"

fun children_of :: "element \<Rightarrow> element list" where
  "children_of (Element tag props children) = children"
| "children_of (Fragment children) = children"
| "children_of e = []"

definition prop_of :: "element \<Rightarrow> string \<Rightarrow> prop_value option" where
  "prop_of e name = map_of (props_of e) name"

definition elements_tagged :: "string \<Rightarrow> element \<Rightarrow> element list" where
  "elements_tagged tag e = filter (\<lambda>n. tag_of n = Some tag) (nodes e)"

definition is_hidden_field :: "element \<Rightarrow> bool" where
  "is_hidden_field e =
     (tag_of e = Some ''Field'' \<and> prop_of e ''type'' = Some (Val (JStr ''hidden'')))"

definition hidden_field_names :: "element \<Rightarrow> prop_value option list" where
  "hidden_field_names e = map (\<lambda>n. prop_of n ''name'') (filter is_hidden_field (nodes e))"

text \<open>
  What the user can see or operate, in document order: the tag of every element outside
  the hidden fields, and every \<open>{value}\<close> child.
\<close>

fun visible_content :: "element \<Rightarrow> (string + jsval) list" where
  "visible_content (Element tag props children) =
     (if is_hidden_field (Element tag props children) then []
      else Inl tag # concat (map visible_content children))"
| "visible_content (Fragment children) = concat (map visible_content children)"
| "visible_content (Expr v) = [Inr v]"
| "visible_content InputOfFieldRenderProps = []"
| "visible_content RenderNull = []"

definition formattedMessageIds :: "element \<Rightarrow> prop_value option list" where
  "formattedMessageIds e = map (\<lambda>n. prop_of n ''id'') (elements_tagged ''FormattedMessage'' e)"

text \<open>The elements of a tree that carry a submit handler.\<close>

definition submit_paths :: "element \<Rightarrow> element list" where
  "submit_paths e = filter (\<lambda>n. prop_of n ''onSubmit'' \<noteq> None) (nodes e)"

section \<open>Submitting the form\<close>

text \<open>
  Modelled from the spec: the form-state library and the \<open>Form\<close> component are not
  under src/. The spec says of them that the component accepts a submit handler and
  emits a submit event carrying the form values. So \<open>Form\<close> calls its \<open>onSubmit\<close>
  prop when the form is submitted, and the \<open>handleSubmit\<close> that the library hands to
  the render function calls the accepted submit handler with the current form values.
  \<open>submitForm onSubmit props tree\<close> lists the calls of the accepted handler
  \<open>onSubmit\<close> that one submission of \<open>tree\<close> makes: the handler, and the values it
  is given.
\<close>

definition submitForm ::
  "prop_value \<Rightarrow> formRenderProps \<Rightarrow> element \<Rightarrow> (prop_value \<times> (string \<Rightarrow> jsval)) list"
where
  "submitForm onSubmit props tree =
     concat (map
       (\<lambda>n. if prop_of n ''onSubmit'' = Some (Val (handleSubmit props))
            then [(onSubmit, formRenderValues props)] else [])
       (elements_tagged ''Form'' tree))"

section \<open>The custom fields, as the configuration describes them\<close>

text \<open>
  An entry asks for a field when its schema type is a known one, its
  \<open>includeForListingTypes\<close> is missing or lists the listing type, and its scope is
  public or private. A missing entry asks for nothing.
\<close>

definition asksForField :: "jsval list \<Rightarrow> jsval \<Rightarrow> ext_data_config nullable \<Rightarrow> bool" where
  "asksForField knownSchemaTypes listingTypeValue entry =
     (case entry of
        Defined cfg \<Rightarrow>
          schemaType cfg \<in> set knownSchemaTypes
          \<and> (nullish (includeForListingTypes cfg)
               \<or> listingTypeValue \<in> set (or_default (includeForListingTypes cfg) []))
          \<and> (scope cfg = JStr ''public'' \<or> scope cfg = JStr ''private'')
      | _ \<Rightarrow> False)"

section \<open>Example inputs\<close>

text \<open>
  A marketplace with two listing types and four extended-data entries, one of them
  missing, and a form in which a purchase listing is being edited.
\<close>

definition knownSchemaTypes :: "jsval list" where
  "knownSchemaTypes =
     [JStr ''enum'', JStr ''multi-enum'', JStr ''text'', JStr ''long'', JStr ''boolean'']"

definition sellConfig :: listing_type_config where
  "sellConfig =
     \<lparr>listingType = JStr ''sell'', transactionProcessAlias = JStr ''default-purchase/release-1'',
      unitType = JStr ''item'', label = JStr ''Sell''\<rparr>"

definition rentConfig :: listing_type_config where
  "rentConfig =
     \<lparr>listingType = JStr ''rent'', transactionProcessAlias = JStr ''default-booking/release-1'',
      unitType = JStr ''day'', label = JStr ''Rent''\<rparr>"

definition giftConfig :: listing_type_config where
  "giftConfig =
     \<lparr>listingType = JStr ''gift'', transactionProcessAlias = JStr ''default-purchase/release-1'',
      unitType = JStr ''hour'', label = JStr ''Gift''\<rparr>"

definition brandConfig :: ext_data_config where
  "brandConfig =
     \<lparr>key = JStr ''brand'', includeForListingTypes = Null,
      schemaType = JStr ''enum'', scope = JStr ''public''\<rparr>"

definition depositConfig :: ext_data_config where
  "depositConfig =
     \<lparr>key = JStr ''deposit'', includeForListingTypes = Defined [JStr ''rent''],
      schemaType = JStr ''long'', scope = JStr ''public''\<rparr>"

definition noteConfig :: ext_data_config where
  "noteConfig =
     \<lparr>key = JStr ''note'', includeForListingTypes = Defined [JStr ''rent'', JStr ''sell''],
      schemaType = JStr ''text'', scope = JStr ''private''\<rparr>"

definition ratingConfig :: ext_data_config where
  "ratingConfig =
     \<lparr>key = JStr ''rating'', includeForListingTypes = Undefined,
      schemaType = JStr ''long'', scope = JStr ''protected''\<rparr>"

definition messages :: intl where
  "messages msgId args = msgId"

definition editedForm :: formApi where
  "editedForm =
     \<lparr>registeredFields =
        {''title'', ''description'', ''listingType'', ''transactionProcessAlias'', ''unitType''},
      formValues = (\<lambda>name. JUndefined)
        (''title'' := JStr ''Bike'', ''description'' := JStr ''A fast one'',
         ''listingType'' := JStr ''sell'',
         ''transactionProcessAlias'' := JStr ''default-purchase/release-1'',
         ''unitType'' := JStr ''item'')\<rparr>"

definition editedWorld :: world where
  "editedWorld = \<lparr>formState = editedForm, processChangeCalls = []\<rparr>"

definition editedProps :: formRenderProps where
  "editedProps =
     \<lparr>autoFocus = JBool True, className = JNull, disabled = False, ready = False,
      form = editedForm, handleSubmit = JObject 3, onProcessChange = Defined 7,
      intl = messages, invalid = False, pristine = True,
      selectableListingTypes = Defined [sellConfig, rentConfig, giftConfig],
      hasExistingListingType = False, saveActionMsg = JStr ''Next'', updated = False,
      updateInProgress = False, fetchErrors = Null,
      listingExtendedDataConfig = Defined [Defined brandConfig, Null, Defined depositConfig],
      formRenderValues = formValues editedForm\<rparr>"

section \<open>Custom extended-data fields\<close>

lemma pickField_asks:
  "pickField T fmt lt acc entry =
     (if asksForField T lt entry then acc @ [CustomExtendedDataField fmt entry] else acc)"
  by (cases entry)
     (auto simp: pickField_def asksForField_def isKnownSchemaType_def isTargetProcessAlias_def
        isProviderScope_def empty_config_def split: nullable.splits)

lemma foldl_pickField:
  "foldl (pickField T fmt lt) acc entries =
     acc @ map (CustomExtendedDataField fmt) (filter (asksForField T lt) entries)"
  by (induction entries arbitrary: acc) (simp_all add: pickField_asks)

lemma asksForField_nullish: "nullish entry \<Longrightarrow> \<not> asksForField T lt entry"
  by (cases entry) (simp_all add: asksForField_def)

lemma filter_asks_defined:
  "filter (asksForField T lt) (filter (\<lambda>e. \<not> nullish e) entries) =
     filter (asksForField T lt) entries"
  by (induction entries) (auto simp: asksForField_nullish)

lemma picked_fields_explicit:
  "map (CustomExtendedDataField fmt) (filter (asksForField T lt) entries) =
   concat (map
     (\<lambda>entry. case entry of
        Defined cfg \<Rightarrow>
          if asksForField T lt (Defined cfg) then
            [Element ''CustomExtendedDataField''
               [(''key'', Val (key cfg)), (''name'', Val (key cfg)),
                (''fieldConfig'', FieldConfig (Defined cfg)),
                (''defaultRequiredMessage'',
                   Val (JStr (fmt ''EditListingDetailsForm.defaultRequiredMessage'' [])))]
               []]
          else []
      | _ \<Rightarrow> [])
     entries)"
proof (induction entries)
  case Nil
  show ?case by simp
next
  case (Cons entry entries)
  show ?case
  proof (cases entry)
    case Undefined
    with Cons show ?thesis by (simp add: asksForField_nullish)
  next
    case Null
    with Cons show ?thesis by (simp add: asksForField_nullish)
  next
    case (Defined cfg)
    with Cons show ?thesis by (simp add: CustomExtendedDataField_def Let_def)
  qed
qed

text \<open>
  C1. For every listing-type value and every configuration list (also a missing one),
  \<open>AddCustomExtendedDataFields\<close> renders one \<open>CustomExtendedDataField\<close> element,
  keyed and named by the entry's key and carrying the entry as its \<open>fieldConfig\<close>, for
  each entry whose schema type is a known one, whose \<open>includeForListingTypes\<close> is null
  or undefined or contains the listing type, and whose scope is public or private; the
  fields come in the order of the configuration list, and no other entry contributes a
  field.
\<close>

theorem C1_custom_fields:
  "AddCustomExtendedDataFields T fmt lt cfgs =
     Fragment (concat (map
       (\<lambda>entry. case entry of
          Defined cfg \<Rightarrow>
            if asksForField T lt (Defined cfg) then
              [Element ''CustomExtendedDataField''
                 [(''key'', Val (key cfg)), (''name'', Val (key cfg)),
                  (''fieldConfig'', FieldConfig (Defined cfg)),
                  (''defaultRequiredMessage'',
                     Val (JStr (fmt ''EditListingDetailsForm.defaultRequiredMessage'' [])))]
                 []]
            else []
        | _ \<Rightarrow> [])
       (or_default cfgs [])))"
  by (simp only: AddCustomExtendedDataFields_def customFields_def Let_def foldl_pickField
      append_Nil picked_fields_explicit)

theorem C1_custom_fields_witness:
  "AddCustomExtendedDataFields knownSchemaTypes messages (JStr ''sell'')
     (Defined [Defined brandConfig, Null, Defined depositConfig, Defined noteConfig,
        Defined ratingConfig]) =
   Fragment
     [Element ''CustomExtendedDataField''
        [(''key'', Val (JStr ''brand'')), (''name'', Val (JStr ''brand'')),
         (''fieldConfig'', FieldConfig (Defined brandConfig)),
         (''defaultRequiredMessage'',
            Val (JStr ''EditListingDetailsForm.defaultRequiredMessage''))]
        [],
      Element ''CustomExtendedDataField''
        [(''key'', Val (JStr ''note'')), (''name'', Val (JStr ''note'')),
         (''fieldConfig'', FieldConfig (Defined noteConfig)),
         (''defaultRequiredMessage'',
            Val (JStr ''EditListingDetailsForm.defaultRequiredMessage''))]
        []]"
proof -
  have asks: "asksForField knownSchemaTypes (JStr ''sell'') (Defined brandConfig)"
    "\<not> asksForField knownSchemaTypes (JStr ''sell'') (Defined depositConfig)"
    "asksForField knownSchemaTypes (JStr ''sell'') (Defined noteConfig)"
    "\<not> asksForField knownSchemaTypes (JStr ''sell'') (Defined ratingConfig)"
    by (simp_all add: asksForField_def knownSchemaTypes_def brandConfig_def depositConfig_def
        noteConfig_def ratingConfig_def)
  have keys: "key brandConfig = JStr ''brand''" "key noteConfig = JStr ''note''"
    by (simp_all add: brandConfig_def noteConfig_def)
  show ?thesis
    using C1_custom_fields [of knownSchemaTypes messages "JStr ''sell''"
      "Defined [Defined brandConfig, Null, Defined depositConfig, Defined noteConfig,
        Defined ratingConfig]"]
    by (simp add: asks keys messages_def)
qed

text \<open>
  C10. \<open>AddCustomExtendedDataFields\<close> handles the degenerate inputs: a null or
  undefined configuration list gives the empty field list, and null or undefined
  entries of a list are skipped (the reducer returns the fields picked so far, and the
  result is that of the list without them). When the known schema types do not list
  \<open>undefined\<close>, such an entry already fails the known-schema-type test.
\<close>

theorem C10_degenerate:
  "AddCustomExtendedDataFields T fmt lt Null = Fragment []
   \<and> AddCustomExtendedDataFields T fmt lt Undefined = Fragment []
   \<and> AddCustomExtendedDataFields T fmt lt (Defined entries) =
       AddCustomExtendedDataFields T fmt lt (Defined (filter (\<lambda>e. \<not> nullish e) entries))
   \<and> pickField T fmt lt picked Null = picked
   \<and> pickField T fmt lt picked Undefined = picked
   \<and> (JUndefined \<notin> set T \<longrightarrow>
         \<not> isKnownSchemaType T (or_default Null empty_config)
         \<and> \<not> isKnownSchemaType T (or_default Undefined empty_config))"
proof -
  have lists: "AddCustomExtendedDataFields T fmt lt Null = Fragment []"
    "AddCustomExtendedDataFields T fmt lt Undefined = Fragment []"
    by (simp_all add: AddCustomExtendedDataFields_def customFields_def)
  have entries: "AddCustomExtendedDataFields T fmt lt (Defined entries) =
       AddCustomExtendedDataFields T fmt lt (Defined (filter (\<lambda>e. \<not> nullish e) entries))"
    by (simp only: AddCustomExtendedDataFields_def customFields_def Let_def or_default.simps
        foldl_pickField filter_asks_defined)
  have skipped: "pickField T fmt lt picked Null = picked"
    "pickField T fmt lt picked Undefined = picked"
    by (simp_all add: pickField_asks asksForField_nullish)
  have unknown: "JUndefined \<notin> set T \<longrightarrow>
         \<not> isKnownSchemaType T (or_default Null empty_config)
         \<and> \<not> isKnownSchemaType T (or_default Undefined empty_config)"
    by (simp add: isKnownSchemaType_def empty_config_def)
  from lists entries skipped unknown show ?thesis by blast
qed

theorem C10_degenerate_witness:
  "JUndefined \<notin> set knownSchemaTypes
   \<and> \<not> isKnownSchemaType knownSchemaTypes (or_default Null empty_config)
   \<and> \<not> isKnownSchemaType knownSchemaTypes (or_default Undefined empty_config)
   \<and> AddCustomExtendedDataFields knownSchemaTypes messages (JStr ''sell'') Null = Fragment []
   \<and> AddCustomExtendedDataFields knownSchemaTypes messages (JStr ''sell'')
        (Defined [Null, Defined brandConfig, Undefined]) =
      AddCustomExtendedDataFields knownSchemaTypes messages (JStr ''sell'')
        (Defined [Defined brandConfig])"
proof -
  have h: "JUndefined \<notin> set knownSchemaTypes"
    by (simp add: knownSchemaTypes_def)
  show ?thesis
    using h C10_degenerate [of knownSchemaTypes messages "JStr ''sell''"
        "[Null, Defined brandConfig, Undefined]"]
    by simp
qed

section \<open>Error messages\<close>

text \<open>
  C2. \<open>ErrorMessage\<close> shows at most one of the three messages, by priority: the
  update-failed message when \<open>updateListingError\<close> is set; otherwise the create-draft
  message when \<open>createListingDraftError\<close> is set; otherwise the show-listing message
  when \<open>showListingsError\<close> is set. It renders nothing at all exactly when none of the
  three is set, as when \<open>fetchErrors\<close> is null or undefined or holds none of them.
\<close>

theorem C2_error_message:
  "formattedMessageIds (ErrorMessage fe) =
     (let errs = or_default fe empty_errors in
      if truthy (updateListingError errs) then
        [Some (Val (JStr ''EditListingDetailsForm.updateFailed''))]
      else if truthy (createListingDraftError errs) then
        [Some (Val (JStr ''EditListingDetailsForm.createListingDraftError''))]
      else if truthy (showListingsError errs) then
        [Some (Val (JStr ''EditListingDetailsForm.showListingFailed''))]
      else [])
   \<and> length (formattedMessageIds (ErrorMessage fe)) \<le> 1
   \<and> (ErrorMessage fe = RenderNull) =
       (let errs = or_default fe empty_errors in
        \<not> truthy (updateListingError errs) \<and> \<not> truthy (createListingDraftError errs)
        \<and> \<not> truthy (showListingsError errs))
   \<and> ErrorMessage Null = RenderNull
   \<and> ErrorMessage Undefined = RenderNull
   \<and> ErrorMessage (Defined empty_errors) = RenderNull"
  by (simp add: ErrorMessage_def errorMessage_def formattedMessageIds_def elements_tagged_def
      prop_of_def empty_errors_def Let_def)

theorem C2_error_message_witness:
  "formattedMessageIds (ErrorMessage (Defined
     \<lparr>updateListingError = JNull, createListingDraftError = JObject 1,
      showListingsError = JObject 2\<rparr>)) =
   [Some (Val (JStr ''EditListingDetailsForm.createListingDraftError''))]"
  using C2_error_message [of "Defined
     \<lparr>updateListingError = JNull, createListingDraftError = JObject 1,
      showListingsError = JObject 2\<rparr>"]
  by simp

section \<open>The change handler of the listing-type select\<close>

lemma handleOnChange_found:
  assumes "find (\<lambda>config. listingType config = v) configs = Some sel"
  shows "handleOnChange (Defined configs) cb v w =
     Inr (w\<lparr>formState :=
               change ''unitType'' (unitType sel)
                 (change ''transactionProcessAlias'' (transactionProcessAlias sel) (formState w)),
             processChangeCalls := processChangeCalls w @
               (case cb of
                  Defined f \<Rightarrow>
                    if getFieldState_value (formState w) ''transactionProcessAlias''
                         \<noteq> transactionProcessAlias sel
                    then [(f, transactionProcessAlias sel)] else []
                | _ \<Rightarrow> [])\<rparr>)"
  using assms by (cases cb) (simp_all add: handleOnChange_def Let_def)

lemma handleOnChange_not_found:
  assumes "find (\<lambda>config. listingType config = v) configs = None"
  shows "handleOnChange (Defined configs) cb v w =
     Inl (TypeError ''Cannot read properties of undefined (reading transactionProcessAlias)'')"
  using assms by (simp add: handleOnChange_def)

lemma find_rent:
  "find (\<lambda>config. listingType config = JStr ''rent'') [sellConfig, rentConfig, giftConfig] = Some rentConfig"
  by (simp add: sellConfig_def rentConfig_def)

lemma find_gift:
  "find (\<lambda>config. listingType config = JStr ''gift'') [sellConfig, rentConfig, giftConfig] = Some giftConfig"
  by (simp add: sellConfig_def rentConfig_def giftConfig_def)

text \<open>
  C3. When a listing type is selected and its configuration is found, the change
  succeeds and \<open>onProcessChange\<close> is called exactly when a callback was given and
  the process alias read from the form before the change differs from the selected
  configuration's; the one call made has that configuration's alias as its argument. In
  particular there is no call when the alias is the same, whatever the unit type.
\<close>

theorem C3_process_change:
  assumes "find (\<lambda>config. listingType config = v) configs = Some sel"
  shows "\<exists>w'. handleOnChange (Defined configs) cb v w = Inr w'
     \<and> processChangeCalls w' = processChangeCalls w @
         (case cb of
            Defined f \<Rightarrow>
              if getFieldState_value (formState w) ''transactionProcessAlias''
                   \<noteq> transactionProcessAlias sel
              then [(f, transactionProcessAlias sel)] else []
          | _ \<Rightarrow> [])
     \<and> (getFieldState_value (formState w) ''transactionProcessAlias''
           = transactionProcessAlias sel \<longrightarrow>
         processChangeCalls w' = processChangeCalls w)"
  by (cases cb) (simp_all add: handleOnChange_found [OF assms])

theorem C3_process_change_witness:
  "find (\<lambda>config. listingType config = JStr ''rent'') [sellConfig, rentConfig, giftConfig]
     = Some rentConfig
   \<and> (\<exists>w'. handleOnChange (Defined [sellConfig, rentConfig, giftConfig]) (Defined 7)
              (JStr ''rent'') editedWorld = Inr w'
          \<and> processChangeCalls w' = [(7, JStr ''default-booking/release-1'')])
   \<and> find (\<lambda>config. listingType config = JStr ''gift'') [sellConfig, rentConfig, giftConfig]
     = Some giftConfig
   \<and> (\<exists>w'. handleOnChange (Defined [sellConfig, rentConfig, giftConfig]) (Defined 7)
              (JStr ''gift'') editedWorld = Inr w'
          \<and> processChangeCalls w' = [])"
  using C3_process_change [OF find_rent, of "Defined 7" editedWorld]
    C3_process_change [OF find_gift, of "Defined 7" editedWorld] find_rent find_gift
  by (simp add: editedWorld_def editedForm_def getFieldState_value_def rentConfig_def
      giftConfig_def)

text \<open>
  C5. When a listing type is selected and its configuration is found, the handler sets
  two form values, \<open>transactionProcessAlias\<close> and \<open>unitType\<close>, to those of the
  selected configuration and changes nothing else of the form: the registered fields
  are the same, and every other value, title and description among them, is as before.
\<close>

theorem C5_frame:
  assumes "find (\<lambda>config. listingType config = v) configs = Some sel"
  shows "\<exists>w'. handleOnChange (Defined configs) cb v w = Inr w'
     \<and> formValues (formState w') =
         (formValues (formState w))
           (''transactionProcessAlias'' := transactionProcessAlias sel,
            ''unitType'' := unitType sel)
     \<and> registeredFields (formState w') = registeredFields (formState w)
     \<and> (\<forall>name. name \<noteq> ''transactionProcessAlias'' \<and> name \<noteq> ''unitType'' \<longrightarrow>
           formValues (formState w') name = formValues (formState w) name
           \<and> getFieldState_value (formState w') name = getFieldState_value (formState w) name)
     \<and> formValues (formState w') ''title'' = formValues (formState w) ''title''
     \<and> formValues (formState w') ''description'' = formValues (formState w) ''description''"
  by (simp add: handleOnChange_found [OF assms] change_def getFieldState_value_def)

theorem C5_frame_witness:
  "find (\<lambda>config. listingType config = JStr ''rent'') [sellConfig, rentConfig, giftConfig]
     = Some rentConfig
   \<and> (\<exists>w'. handleOnChange (Defined [sellConfig, rentConfig, giftConfig]) Null
              (JStr ''rent'') editedWorld = Inr w'
          \<and> formValues (formState w') ''transactionProcessAlias'' = JStr ''default-booking/release-1''
          \<and> formValues (formState w') ''unitType'' = JStr ''day''
          \<and> formValues (formState w') ''title'' = JStr ''Bike''
          \<and> formValues (formState w') ''description'' = JStr ''A fast one''
          \<and> formValues (formState w') ''listingType'' = JStr ''sell'')"
proof -
  from C5_frame [OF find_rent, of Null editedWorld] obtain w' where
    ret: "handleOnChange (Defined [sellConfig, rentConfig, giftConfig]) Null
            (JStr ''rent'') editedWorld = Inr w'"
    and vals: "formValues (formState w') =
         (formValues (formState editedWorld))
           (''transactionProcessAlias'' := transactionProcessAlias rentConfig,
            ''unitType'' := unitType rentConfig)"
    by blast
  have "formValues (formState w') ''transactionProcessAlias'' = JStr ''default-booking/release-1''"
    "formValues (formState w') ''unitType'' = JStr ''day''"
    "formValues (formState w') ''title'' = JStr ''Bike''"
    "formValues (formState w') ''description'' = JStr ''A fast one''"
    "formValues (formState w') ''listingType'' = JStr ''sell''"
    unfolding vals by (simp_all add: editedWorld_def editedForm_def rentConfig_def)
  with ret find_rent show ?thesis by blast
qed

lemma find_None_iff_set: "(find P xs = None) = (\<forall>x\<in>set xs. \<not> P x)"
  by (induction xs) auto

text \<open>
  C8. When the selected value is the \<open>listingType\<close> of some entry of
  \<open>listingTypes\<close>, the lookup finds a configuration and the handler returns; when it
  is the \<open>listingType\<close> of no entry, the handler fails with the type error of reading
  \<open>transactionProcessAlias\<close> of \<open>undefined\<close>.
\<close>

theorem C8_lookup:
  "((\<exists>config\<in>set configs. listingType config = v) \<longrightarrow>
      (\<exists>sel w'. find (\<lambda>config. listingType config = v) configs = Some sel
         \<and> handleOnChange (Defined configs) cb v w = Inr w'))
   \<and> ((\<forall>config\<in>set configs. listingType config \<noteq> v) \<longrightarrow>
      handleOnChange (Defined configs) cb v w =
        Inl (TypeError ''Cannot read properties of undefined (reading transactionProcessAlias)''))"
proof (intro conjI impI)
  assume "\<exists>config\<in>set configs. listingType config = v"
  then have "find (\<lambda>config. listingType config = v) configs \<noteq> None"
    by (simp add: find_None_iff_set)
  then obtain sel where "find (\<lambda>config. listingType config = v) configs = Some sel"
    by blast
  then show "\<exists>sel w'. find (\<lambda>config. listingType config = v) configs = Some sel
         \<and> handleOnChange (Defined configs) cb v w = Inr w'"
    by (simp add: handleOnChange_found)
next
  assume "\<forall>config\<in>set configs. listingType config \<noteq> v"
  then have "find (\<lambda>config. listingType config = v) configs = None"
    by (simp add: find_None_iff_set)
  then show "handleOnChange (Defined configs) cb v w =
        Inl (TypeError ''Cannot read properties of undefined (reading transactionProcessAlias)'')"
    by (rule handleOnChange_not_found)
qed

theorem C8_lookup_witness:
  "(\<exists>w'. handleOnChange (Defined [sellConfig, rentConfig, giftConfig]) Null (JStr ''rent'')
       editedWorld = Inr w')
   \<and> handleOnChange (Defined [sellConfig, rentConfig, giftConfig]) Null (JStr ''swap'')
       editedWorld =
     Inl (TypeError ''Cannot read properties of undefined (reading transactionProcessAlias)'')"
proof -
  have found: "\<exists>config\<in>set [sellConfig, rentConfig, giftConfig]. listingType config = JStr ''rent''"
    by (simp add: rentConfig_def)
  have missing: "\<forall>config\<in>set [sellConfig, rentConfig, giftConfig]. listingType config \<noteq> JStr ''swap''"
    by (simp add: sellConfig_def rentConfig_def giftConfig_def)
  have "\<exists>sel w'. find (\<lambda>config. listingType config = JStr ''rent'') [sellConfig, rentConfig, giftConfig] = Some sel
         \<and> handleOnChange (Defined [sellConfig, rentConfig, giftConfig]) Null (JStr ''rent'') editedWorld = Inr w'"
    using C8_lookup [of "[sellConfig, rentConfig, giftConfig]" "JStr ''rent''" Null editedWorld,
        THEN conjunct1, THEN mp, OF found] .
  then have ok: "\<exists>w'. handleOnChange (Defined [sellConfig, rentConfig, giftConfig]) Null (JStr ''rent'')
       editedWorld = Inr w'"
    by (elim exE conjE) (rule exI)
  have err: "handleOnChange (Defined [sellConfig, rentConfig, giftConfig]) Null (JStr ''swap'')
       editedWorld =
     Inl (TypeError ''Cannot read properties of undefined (reading transactionProcessAlias)'')"
    using C8_lookup [of "[sellConfig, rentConfig, giftConfig]" "JStr ''swap''" Null editedWorld,
        THEN conjunct2, THEN mp, OF missing] .
  from ok err show ?thesis by (rule conjI)
qed

section \<open>The rendered form\<close>

lemma hasMultipleListingTypes_length:
  "hasMultipleListingTypes lts = (1 < length (or_default lts []))"
  by (cases lts) (simp_all add: hasMultipleListingTypes_def)

lemma listingTypeOption_nodes:
  "nodes (listingTypeOption c) = [listingTypeOption c, Expr (label c)]"
  by (simp add: listingTypeOption_def Let_def)

lemma option_nodes_none:
  assumes "\<And>c. \<not> P (listingTypeOption c)" and "\<And>v. \<not> P (Expr v)"
  shows "filter P (concat (map (nodes \<circ> listingTypeOption) cs)) = []"
  by (induction cs) (simp_all add: listingTypeOption_nodes assms)

lemma FieldHidden_nodes:
  "nodes (FieldHidden nm) = [FieldHidden nm, InputOfFieldRenderProps]"
  by (simp add: FieldHidden_def)

lemma FieldHidden_hidden: "is_hidden_field (FieldHidden nm)"
  by (simp add: FieldHidden_def is_hidden_field_def prop_of_def)

lemma FieldHidden_name: "prop_of (FieldHidden nm) ''name'' = Some (Val (JStr nm))"
  by (simp add: FieldHidden_def prop_of_def)

lemma FieldHidden_visible: "visible_content (FieldHidden nm) = []"
  using FieldHidden_hidden [of nm] by (simp add: FieldHidden_def)

lemma FieldHidden_tag: "tag_of (FieldHidden nm) = Some ''Field''"
  by (simp add: FieldHidden_def)

lemma FieldHidden_onSubmit: "prop_of (FieldHidden nm) ''onSubmit'' = None"
  by (simp add: FieldHidden_def prop_of_def)

lemma FSLT_select:
  assumes "1 < length (or_default lts [])" and "\<not> ex"
  shows "FieldSelectListingType name lts ex api fmt =
     Fragment
       [Element ''FieldSelect''
          [(''id'', Val (JStr name)), (''name'', Val (JStr name)),
           (''className'', Css ''listingTypeSelect''),
           (''label'', Val (JStr (fmt ''EditListingDetailsForm.listingTypeLabel'' []))),
           (''validate'',
              Validate (required (fmt ''EditListingDetailsForm.listingTypeRequired'' []))),
           (''onChange'', HandleOnChange)]
          (Element ''option'' [(''disabled'', Val (JBool True)), (''value'', Val (JStr ''''))]
             [Expr (JStr (fmt ''EditListingDetailsForm.listingTypePlaceholder'' []))]
           # map listingTypeOption (or_default lts [])),
        FieldHidden ''transactionProcessAlias'',
        FieldHidden ''unitType'']"
  unfolding FieldSelectListingType_def hasMultipleListingTypes_length
  using assms by (simp only: simp_thms if_True)

lemma FSLT_readonly:
  assumes "1 < length (or_default lts [])" and "ex"
  shows "FieldSelectListingType name lts ex api fmt =
     Element ''div'' [(''className'', Css ''listingTypeSelect'')]
       [Element ''Heading'' [(''as'', Val (JStr ''h5'')), (''rootClassName'', Css ''selectedLabel'')]
          [Expr (JStr (fmt ''EditListingDetailsForm.listingTypeLabel'' []))],
        Element ''p'' [(''className'', Css ''selectedValue'')]
          [Expr (getFieldState_value api name)],
        FieldHidden name,
        FieldHidden ''transactionProcessAlias'',
        FieldHidden ''unitType'']"
  unfolding FieldSelectListingType_def hasMultipleListingTypes_length
  using assms by (simp only: simp_thms if_True if_False)

lemma FSLT_hidden:
  assumes "\<not> 1 < length (or_default lts [])"
  shows "FieldSelectListingType name lts ex api fmt =
     Fragment
       [FieldHidden name,
        FieldHidden ''transactionProcessAlias'',
        FieldHidden ''unitType'']"
  unfolding FieldSelectListingType_def hasMultipleListingTypes_length
  using assms by (simp only: simp_thms if_False)

lemma FSLT_cases:
  obtains (select) "1 < length (or_default lts [])" "\<not> ex"
    | (readonly) "1 < length (or_default lts [])" "ex"
    | (hidden) "\<not> 1 < length (or_default lts [])"
  by blast

lemma FSLT_filter_none:
  assumes fh: "\<And>nm. \<not> P (FieldHidden nm)" and inp: "\<not> P InputOfFieldRenderProps"
    and frag: "\<And>cs. \<not> P (Fragment cs)" and ex: "\<And>v. \<not> P (Expr v)"
    and el: "\<And>tg ps cs. tg \<in> {''FieldSelect'', ''option'', ''div'', ''Heading'', ''p''} \<Longrightarrow> \<not> P (Element tg ps cs)"
  shows "filter P (nodes (FieldSelectListingType name lts ex api fmt)) = []"
proof -
  have opts: "filter P (concat (map (nodes \<circ> listingTypeOption) cs)) = []" for cs
    by (rule option_nodes_none) (simp_all add: listingTypeOption_def Let_def el ex)
  show ?thesis
  proof (cases rule: FSLT_cases [of lts ex])
    case select
    then show ?thesis
      by (simp add: FSLT_select FieldHidden_nodes fh inp frag ex el opts)
  next
    case readonly
    then show ?thesis
      by (simp add: FSLT_readonly FieldHidden_nodes fh inp frag ex el)
  next
    case hidden
    then show ?thesis
      by (simp add: FSLT_hidden FieldHidden_nodes fh inp frag ex el)
  qed
qed

lemma option_visible:
  "concat (map (visible_content \<circ> listingTypeOption) cs) =
     concat (map (\<lambda>c. [Inl ''option'', Inr (label c)]) cs)"
  by (induction cs) (simp_all add: listingTypeOption_def Let_def is_hidden_field_def)

lemma not_hidden_simps:
  "\<not> is_hidden_field InputOfFieldRenderProps"
  "\<not> is_hidden_field (Fragment cs)"
  "\<not> is_hidden_field (Expr v)"
  "tg \<noteq> ''Field'' \<Longrightarrow> \<not> is_hidden_field (Element tg ps cs)"
  by (simp_all add: is_hidden_field_def)

text \<open>
  C9. In each of the three branches of \<open>FieldSelectListingType\<close> the hidden fields
  \<open>transactionProcessAlias\<close> and \<open>unitType\<close> are rendered, and in the two branches
  without the select a hidden field for the listing-type name comes before them. These
  are all the hidden fields of the output.
\<close>

theorem C9_hidden_fields:
  "hidden_field_names (FieldSelectListingType name lts ex api fmt) =
     (if 1 < length (or_default lts []) \<and> \<not> ex then [] else [Some (Val (JStr name))])
     @ [Some (Val (JStr ''transactionProcessAlias'')), Some (Val (JStr ''unitType''))]"
proof -
  have opts: "filter is_hidden_field (concat (map (nodes \<circ> listingTypeOption) cs)) = []" for cs
    by (rule option_nodes_none) (simp_all add: listingTypeOption_def Let_def is_hidden_field_def)
  show ?thesis
  proof (cases rule: FSLT_cases [of lts ex])
    case select
    then show ?thesis
      by (simp add: FSLT_select hidden_field_names_def FieldHidden_nodes FieldHidden_hidden
          FieldHidden_name opts not_hidden_simps)
  next
    case readonly
    then show ?thesis
      by (simp add: FSLT_readonly hidden_field_names_def FieldHidden_nodes FieldHidden_hidden
          FieldHidden_name not_hidden_simps)
  next
    case hidden
    then show ?thesis
      by (simp add: FSLT_hidden hidden_field_names_def FieldHidden_nodes FieldHidden_hidden
          FieldHidden_name not_hidden_simps)
  qed
qed

theorem C9_hidden_fields_witness:
  "hidden_field_names (FieldSelectListingType ''listingType''
      (Defined [sellConfig, rentConfig, giftConfig]) False editedForm messages) =
     [Some (Val (JStr ''transactionProcessAlias'')), Some (Val (JStr ''unitType''))]
   \<and> hidden_field_names (FieldSelectListingType ''listingType''
      (Defined [sellConfig, rentConfig, giftConfig]) True editedForm messages) =
     [Some (Val (JStr ''listingType'')), Some (Val (JStr ''transactionProcessAlias'')),
      Some (Val (JStr ''unitType''))]
   \<and> hidden_field_names (FieldSelectListingType ''listingType''
      (Defined [sellConfig]) False editedForm messages) =
     [Some (Val (JStr ''listingType'')), Some (Val (JStr ''transactionProcessAlias'')),
      Some (Val (JStr ''unitType''))]"
  using C9_hidden_fields [of "''listingType''" "Defined [sellConfig, rentConfig, giftConfig]"
      False editedForm messages]
    C9_hidden_fields [of "''listingType''" "Defined [sellConfig, rentConfig, giftConfig]"
      True editedForm messages]
    C9_hidden_fields [of "''listingType''" "Defined [sellConfig]" False editedForm messages]
  by simp

text \<open>
  C4. \<open>FieldSelectListingType\<close> renders the select exactly when \<open>listingTypes\<close> has
  more than one entry and \<open>hasExistingListingType\<close> is false: it then has the required
  validator and the change handler, and its children are a disabled placeholder option
  followed by one option per configuration, keyed and valued by \<open>listingType\<close> and
  showing \<open>label\<close>. With more than one entry and an existing listing type, what is
  shown is a heading and the current value of the listing-type field. In the remaining
  cases nothing is visible and every child is a hidden field.
\<close>

theorem C4_listing_type_control:
  "(elements_tagged ''FieldSelect'' (FieldSelectListingType name lts ex api fmt) \<noteq> []) =
     (1 < length (or_default lts []) \<and> \<not> ex)
   \<and> (1 < length (or_default lts []) \<and> \<not> ex \<longrightarrow>
        elements_tagged ''FieldSelect'' (FieldSelectListingType name lts ex api fmt) =
          [Element ''FieldSelect''
             [(''id'', Val (JStr name)), (''name'', Val (JStr name)),
              (''className'', Css ''listingTypeSelect''),
              (''label'', Val (JStr (fmt ''EditListingDetailsForm.listingTypeLabel'' []))),
              (''validate'',
                 Validate (required (fmt ''EditListingDetailsForm.listingTypeRequired'' []))),
              (''onChange'', HandleOnChange)]
             (Element ''option'' [(''disabled'', Val (JBool True)), (''value'', Val (JStr ''''))]
                [Expr (JStr (fmt ''EditListingDetailsForm.listingTypePlaceholder'' []))]
              # map (\<lambda>config. Element ''option''
                    [(''key'', Val (listingType config)), (''value'', Val (listingType config))]
                    [Expr (label config)])
                  (or_default lts []))]
        \<and> visible_content (FieldSelectListingType name lts ex api fmt) =
            [Inl ''FieldSelect'', Inl ''option'',
             Inr (JStr (fmt ''EditListingDetailsForm.listingTypePlaceholder'' []))]
            @ concat (map (\<lambda>config. [Inl ''option'', Inr (label config)]) (or_default lts [])))
   \<and> (1 < length (or_default lts []) \<and> ex \<longrightarrow>
        visible_content (FieldSelectListingType name lts ex api fmt) =
          [Inl ''div'', Inl ''Heading'',
           Inr (JStr (fmt ''EditListingDetailsForm.listingTypeLabel'' [])),
           Inl ''p'', Inr (getFieldState_value api name)])
   \<and> (\<not> 1 < length (or_default lts []) \<longrightarrow>
        visible_content (FieldSelectListingType name lts ex api fmt) = []
        \<and> list_all is_hidden_field (children_of (FieldSelectListingType name lts ex api fmt)))"
proof -
  have opts: "filter (\<lambda>n. tag_of n = Some ''FieldSelect'')
      (concat (map (nodes \<circ> listingTypeOption) cs)) = []" for cs
    by (rule option_nodes_none) (simp_all add: listingTypeOption_def Let_def)
  have options: "map listingTypeOption cs =
      map (\<lambda>config. Element ''option''
          [(''key'', Val (listingType config)), (''value'', Val (listingType config))]
          [Expr (label config)]) cs" for cs
    by (simp add: listingTypeOption_def Let_def)
  show ?thesis
  proof (cases rule: FSLT_cases [of lts ex])
    case select
    have tagged: "elements_tagged ''FieldSelect'' (FieldSelectListingType name lts ex api fmt) =
        [Element ''FieldSelect''
             [(''id'', Val (JStr name)), (''name'', Val (JStr name)),
              (''className'', Css ''listingTypeSelect''),
              (''label'', Val (JStr (fmt ''EditListingDetailsForm.listingTypeLabel'' []))),
              (''validate'',
                 Validate (required (fmt ''EditListingDetailsForm.listingTypeRequired'' []))),
              (''onChange'', HandleOnChange)]
             (Element ''option'' [(''disabled'', Val (JBool True)), (''value'', Val (JStr ''''))]
                [Expr (JStr (fmt ''EditListingDetailsForm.listingTypePlaceholder'' []))]
              # map listingTypeOption (or_default lts []))]"
      by (simp add: FSLT_select [OF select] elements_tagged_def FieldHidden_nodes
          FieldHidden_tag opts)
    have visible: "visible_content (FieldSelectListingType name lts ex api fmt) =
            [Inl ''FieldSelect'', Inl ''option'',
             Inr (JStr (fmt ''EditListingDetailsForm.listingTypePlaceholder'' []))]
            @ concat (map (\<lambda>config. [Inl ''option'', Inr (label config)]) (or_default lts []))"
      by (simp add: FSLT_select [OF select] FieldHidden_visible not_hidden_simps option_visible)
    from select tagged visible show ?thesis
      by (simp add: options)
  next
    case readonly
    have tagged: "elements_tagged ''FieldSelect'' (FieldSelectListingType name lts ex api fmt) = []"
      by (simp add: FSLT_readonly [OF readonly] elements_tagged_def FieldHidden_nodes
          FieldHidden_tag)
    have visible: "visible_content (FieldSelectListingType name lts ex api fmt) =
          [Inl ''div'', Inl ''Heading'',
           Inr (JStr (fmt ''EditListingDetailsForm.listingTypeLabel'' [])),
           Inl ''p'', Inr (getFieldState_value api name)]"
      by (simp add: FSLT_readonly [OF readonly] FieldHidden_visible not_hidden_simps)
    from readonly tagged visible show ?thesis
      by simp
  next
    case hidden
    have tagged: "elements_tagged ''FieldSelect'' (FieldSelectListingType name lts ex api fmt) = []"
      by (simp add: FSLT_hidden [OF hidden] elements_tagged_def FieldHidden_nodes
          FieldHidden_tag)
    have visible: "visible_content (FieldSelectListingType name lts ex api fmt) = []"
      by (simp add: FSLT_hidden [OF hidden] FieldHidden_visible)
    have kids: "list_all is_hidden_field (children_of (FieldSelectListingType name lts ex api fmt))"
      by (simp add: FSLT_hidden [OF hidden] FieldHidden_hidden)
    from hidden tagged visible kids show ?thesis
      by simp
  qed
qed

theorem C4_listing_type_control_witness:
  "visible_content (FieldSelectListingType ''listingType''
      (Defined [sellConfig, rentConfig, giftConfig]) False editedForm messages) =
     [Inl ''FieldSelect'', Inl ''option'', Inr (JStr ''EditListingDetailsForm.listingTypePlaceholder''),
      Inl ''option'', Inr (JStr ''Sell''), Inl ''option'', Inr (JStr ''Rent''),
      Inl ''option'', Inr (JStr ''Gift'')]
   \<and> visible_content (FieldSelectListingType ''listingType''
      (Defined [sellConfig, rentConfig, giftConfig]) True editedForm messages) =
     [Inl ''div'', Inl ''Heading'', Inr (JStr ''EditListingDetailsForm.listingTypeLabel''),
      Inl ''p'', Inr (JStr ''sell'')]
   \<and> visible_content (FieldSelectListingType ''listingType''
      (Defined [sellConfig]) False editedForm messages) = []
   \<and> visible_content (FieldSelectListingType ''listingType'' Null True editedForm messages) = []"
proof -
  have many: "1 < length (or_default (Defined [sellConfig, rentConfig, giftConfig]) [])"
    by simp
  have one: "\<not> 1 < length (or_default (Defined [sellConfig]) [])"
    by simp
  have none: "\<not> 1 < length (or_default (Null :: listing_type_config list nullable) [])"
    by simp
  have "visible_content (FieldSelectListingType ''listingType''
      (Defined [sellConfig, rentConfig, giftConfig]) False editedForm messages) =
     [Inl ''FieldSelect'', Inl ''option'', Inr (JStr ''EditListingDetailsForm.listingTypePlaceholder''),
      Inl ''option'', Inr (JStr ''Sell''), Inl ''option'', Inr (JStr ''Rent''),
      Inl ''option'', Inr (JStr ''Gift'')]"
    using many C4_listing_type_control [of "''listingType''"
        "Defined [sellConfig, rentConfig, giftConfig]" False editedForm messages]
    by (simp add: messages_def sellConfig_def rentConfig_def giftConfig_def)
  moreover have "visible_content (FieldSelectListingType ''listingType''
      (Defined [sellConfig, rentConfig, giftConfig]) True editedForm messages) =
     [Inl ''div'', Inl ''Heading'', Inr (JStr ''EditListingDetailsForm.listingTypeLabel''),
      Inl ''p'', Inr (JStr ''sell'')]"
    using many C4_listing_type_control [of "''listingType''"
        "Defined [sellConfig, rentConfig, giftConfig]" True editedForm messages]
    by (simp add: messages_def getFieldState_value_def editedForm_def)
  moreover have "visible_content (FieldSelectListingType ''listingType''
      (Defined [sellConfig]) False editedForm messages) = []"
    using one C4_listing_type_control [of "''listingType''" "Defined [sellConfig]" False
        editedForm messages]
    by simp
  moreover have "visible_content (FieldSelectListingType ''listingType'' Null True
      editedForm messages) = []"
    using none C4_listing_type_control [of "''listingType''" Null True editedForm messages]
    by simp
  ultimately show ?thesis by simp
qed

lemma CustomExtendedDataField_nodes:
  "nodes (CustomExtendedDataField fmt e) = [CustomExtendedDataField fmt e]"
  by (simp add: CustomExtendedDataField_def Let_def)

lemma custom_filter_none:
  assumes "\<And>e. \<not> P (CustomExtendedDataField fmt e)" and "\<And>cs. \<not> P (Fragment cs)"
  shows "filter P (nodes (AddCustomExtendedDataFields T fmt lt cfgs)) = []"
proof -
  have "filter P (concat (map (nodes \<circ> CustomExtendedDataField fmt) es)) = []" for es
    by (induction es) (simp_all add: CustomExtendedDataField_nodes assms)
  then show ?thesis
    by (simp add: AddCustomExtendedDataFields_def customFields_def foldl_pickField assms)
qed

lemma ErrorMessage_no_input:
  "filter (\<lambda>n. tag_of n = Some ''FieldTextInput'') (nodes (ErrorMessage fe)) = []"
  by (simp add: ErrorMessage_def errorMessage_def Let_def)

lemma ErrorMessage_no_submit:
  "filter (\<lambda>n. prop_of n ''onSubmit'' \<noteq> None) (nodes (ErrorMessage fe)) = []"
  by (simp add: ErrorMessage_def errorMessage_def Let_def prop_of_def)

lemma FSLT_no_input:
  "filter (\<lambda>n. tag_of n = Some ''FieldTextInput'')
     (nodes (FieldSelectListingType name lts ex api fmt)) = []"
  by (rule FSLT_filter_none) (auto simp: FieldHidden_tag)

lemma prop_of_simps:
  "prop_of (Element tg ps cs) k = map_of ps k"
  "prop_of (Fragment cs) k = None"
  "prop_of (Expr v) k = None"
  "prop_of InputOfFieldRenderProps k = None"
  "prop_of RenderNull k = None"
  by (simp_all add: prop_of_def)

lemma FSLT_no_submit:
  "filter (\<lambda>n. prop_of n ''onSubmit'' \<noteq> None)
     (nodes (FieldSelectListingType name lts ex api fmt)) = []"
proof -
  have opts: "filter (\<lambda>n. prop_of n ''onSubmit'' \<noteq> None)
      (concat (map (nodes \<circ> listingTypeOption) cs)) = []" for cs
    by (rule option_nodes_none) (simp_all add: listingTypeOption_def Let_def prop_of_def)
  show ?thesis
  proof (cases rule: FSLT_cases [of lts ex])
    case select
    then show ?thesis
      by (simp add: FSLT_select FieldHidden_nodes FieldHidden_onSubmit opts prop_of_simps
          del: not_None_eq)
  next
    case readonly
    then show ?thesis
      by (simp add: FSLT_readonly FieldHidden_nodes FieldHidden_onSubmit prop_of_simps
          del: not_None_eq)
  next
    case hidden
    then show ?thesis
      by (simp add: FSLT_hidden FieldHidden_nodes FieldHidden_onSubmit prop_of_simps
          del: not_None_eq)
  qed
qed

lemma custom_no_input:
  "filter (\<lambda>n. tag_of n = Some ''FieldTextInput'')
     (nodes (AddCustomExtendedDataFields T fmt lt cfgs)) = []"
  by (rule custom_filter_none) (simp_all add: CustomExtendedDataField_def Let_def)

lemma custom_no_submit:
  "filter (\<lambda>n. prop_of n ''onSubmit'' \<noteq> None)
     (nodes (AddCustomExtendedDataFields T fmt lt cfgs)) = []"
  by (rule custom_filter_none) (simp_all add: CustomExtendedDataField_def Let_def prop_of_def)

text \<open>
  C6. The form has two text inputs. The title is validated by the composition of the
  required validator (message \<open>titleRequired\<close>) and the max-length validator with limit
  60 (message \<open>maxLength\<close>, with the limit as its value), and carries \<open>maxLength\<close> 60;
  the description is validated by the required validator alone (message
  \<open>descriptionRequired\<close>) and carries no \<open>maxLength\<close>.
\<close>

theorem C6_validators:
  "map (\<lambda>n. (prop_of n ''name'', prop_of n ''validate'', prop_of n ''maxLength''))
     (elements_tagged ''FieldTextInput'' (render T props)) =
     [(Some (Val (JStr ''title'')),
       Some (Validate (composeValidators
         [required (intl props ''EditListingDetailsForm.titleRequired'' []),
          maxLength (intl props ''EditListingDetailsForm.maxLength'' [(''maxLength'', JNum 60)])
            60])),
       Some (Val (JNum 60))),
      (Some (Val (JStr ''description'')),
       Some (Validate (required (intl props ''EditListingDetailsForm.descriptionRequired'' []))),
       None)]
   \<and> TITLE_MAX_LENGTH = 60"
  by (simp add: render_def Let_def elements_tagged_def
      ErrorMessage_no_input FSLT_no_input custom_no_input prop_of_simps TITLE_MAX_LENGTH_def)

theorem C6_validators_witness:
  "map (\<lambda>n. (prop_of n ''name'', prop_of n ''validate'', prop_of n ''maxLength''))
     (elements_tagged ''FieldTextInput'' (render knownSchemaTypes editedProps)) =
     [(Some (Val (JStr ''title'')),
       Some (Validate (composeValidators
         [required ''EditListingDetailsForm.titleRequired'',
          maxLength ''EditListingDetailsForm.maxLength'' 60])),
       Some (Val (JNum 60))),
      (Some (Val (JStr ''description'')),
       Some (Validate (required ''EditListingDetailsForm.descriptionRequired'')),
       None)]"
  using C6_validators [of knownSchemaTypes editedProps]
  by (simp add: editedProps_def messages_def)

lemma ErrorMessage_no_form:
  "filter (\<lambda>n. tag_of n = Some ''Form'') (nodes (ErrorMessage fe)) = []"
  by (simp add: ErrorMessage_def errorMessage_def Let_def)

lemma FSLT_no_form:
  "filter (\<lambda>n. tag_of n = Some ''Form'')
     (nodes (FieldSelectListingType name lts ex api fmt)) = []"
  by (rule FSLT_filter_none) (auto simp: FieldHidden_tag)

lemma custom_no_form:
  "filter (\<lambda>n. tag_of n = Some ''Form'')
     (nodes (AddCustomExtendedDataFields T fmt lt cfgs)) = []"
  by (rule custom_filter_none) (simp_all add: CustomExtendedDataField_def Let_def)

lemma render_forms: "elements_tagged ''Form'' (render T props) = [render T props]"
  by (simp add: render_def Let_def elements_tagged_def ErrorMessage_no_form FSLT_no_form
      custom_no_form)

text \<open>
  C7. The rendered tree is a \<open>Form\<close> whose \<open>onSubmit\<close> is the \<open>handleSubmit\<close> of the
  render props, and no other element of the tree has an \<open>onSubmit\<close>. The component
  hands its own \<open>onSubmit\<close> prop to the form-state library unchanged, with this render
  function. So one submission of the rendered form makes one call of the accepted
  submit handler, with the current form values.
\<close>

theorem C7_submit:
  "tag_of (render T props) = Some ''Form''
   \<and> prop_of (render T props) ''onSubmit'' = Some (Val (handleSubmit props))
   \<and> submit_paths (render T props) = [render T props]
   \<and> prop_of (EditListingDetailsFormComponent ownProps) ''render'' = Some Render
   \<and> prop_of (EditListingDetailsFormComponent ownProps) ''onSubmit''
       = map_of ownProps ''onSubmit''
   \<and> submitForm onSubmit props (render T props) = [(onSubmit, formRenderValues props)]"
proof -
  have inner: "tag_of (render T props) = Some ''Form''"
    "prop_of (render T props) ''onSubmit'' = Some (Val (handleSubmit props))"
    "submit_paths (render T props) = [render T props]"
    by (simp_all add: render_def Let_def submit_paths_def
        ErrorMessage_no_submit FSLT_no_submit custom_no_submit prop_of_simps del: not_None_eq)
  have outer: "prop_of (EditListingDetailsFormComponent ownProps) ''render'' = Some Render"
    "prop_of (EditListingDetailsFormComponent ownProps) ''onSubmit''
       = map_of ownProps ''onSubmit''"
    by (simp_all add: EditListingDetailsFormComponent_def prop_of_simps update_conv')
  have calls: "submitForm onSubmit props (render T props) = [(onSubmit, formRenderValues props)]"
    by (simp add: submitForm_def render_forms inner)
  from inner outer calls show ?thesis by simp
qed

theorem C7_submit_witness:
  "prop_of (render knownSchemaTypes editedProps) ''onSubmit'' = Some (Val (JObject 3))
   \<and> map (\<lambda>n. tag_of n) (submit_paths (render knownSchemaTypes editedProps)) = [Some ''Form'']
   \<and> prop_of (EditListingDetailsFormComponent
        [(''onSubmit'', Val (JObject 9)), (''render'', Val JNull)]) ''onSubmit''
       = Some (Val (JObject 9))
   \<and> prop_of (EditListingDetailsFormComponent
        [(''onSubmit'', Val (JObject 9)), (''render'', Val JNull)]) ''render''
       = Some Render
   \<and> map fst (submitForm (Val (JObject 9)) editedProps (render knownSchemaTypes editedProps))
       = [Val (JObject 9)]
   \<and> map (\<lambda>c. snd c ''title'')
        (submitForm (Val (JObject 9)) editedProps (render knownSchemaTypes editedProps))
       = [JStr ''Bike'']"
  using C7_submit [of knownSchemaTypes editedProps
      "[(''onSubmit'', Val (JObject 9)), (''render'', Val JNull)]" "Val (JObject 9)"]
  by (simp add: editedProps_def editedForm_def)

end
